theory Spec2Isabelle
  imports Main
begin

section \<open>Strings of the host language\<close>

text \<open>
  A string is a list of characters, one \<open>char\<close> for each code unit below 256. The
  functions below are the library calls the supervisor module makes on strings: the
  global replacement of \<open>\D\<close>, \<open>trim\<close>, \<open>includes\<close>, \<open>split\<close> at a line
  feed, \<open>join\<close> and \<open>slice\<close> with a negative start.
\<close>

definition isDigit :: "char \<Rightarrow> bool" where
  "isDigit c = (c \<in> set ''0123456789'')"

definition replaceNonDigits :: "string \<Rightarrow> string" where
  \<comment> \<open>\<open>s.replace(/\D/g, '')\<close>\<close>
  "replaceNonDigits s = filter isDigit s"

definition isWhiteSpace :: "char \<Rightarrow> bool" where
  \<comment> \<open>tab, line feed, vertical tab, form feed, carriage return, space, no-break space\<close>
  "isWhiteSpace c = (of_char c \<in> {9, 10, 11, 12, 13, 32, 160 :: nat})"

definition trim :: "string \<Rightarrow> string" where
  "trim s = rev (dropWhile isWhiteSpace (rev (dropWhile isWhiteSpace s)))"

fun startsWith :: "string \<Rightarrow> string \<Rightarrow> bool" where
  "startsWith s [] = True"
| "startsWith [] (p # ps) = False"
| "startsWith (c # cs) (p # ps) = (c = p \<and> startsWith cs ps)"

fun str_includes :: "string \<Rightarrow> string \<Rightarrow> bool" where
  \<comment> \<open>\<open>s.includes(pat)\<close>: \<open>pat\<close> occurs in \<open>s\<close> as a substring\<close>
  "str_includes [] pat = (pat = [])"
| "str_includes (c # cs) pat = (startsWith (c # cs) pat \<or> str_includes cs pat)"

fun split :: "char \<Rightarrow> string \<Rightarrow> string list" where
  \<comment> \<open>\<open>s.split(sep)\<close> for a separator of one character; the empty string gives \<open>['']\<close>\<close>
  "split sep [] = [[]]"
| "split sep (c # cs) =
     (if c = sep then [] # split sep cs
      else (case split sep cs of
              [] \<Rightarrow> [[c]]
            | w # ws \<Rightarrow> (c # w) # ws))"

fun join :: "string \<Rightarrow> string list \<Rightarrow> string" where
  \<comment> \<open>\<open>xs.join(sep)\<close>\<close>
  "join sep [] = []"
| "join sep [x] = x"
| "join sep (x # y # ys) = x @ sep @ join sep (y # ys)"

definition sliceLast :: "nat \<Rightarrow> 'a list \<Rightarrow> 'a list" where
  \<comment> \<open>\<open>xs.slice(-k)\<close>: the last \<open>k\<close> elements, all of them when there are fewer\<close>
  "sliceLast k xs = drop (length xs - k) xs"

section \<open>License record\<close>

definition VALID_LICENSE_KEY :: string where
  "VALID_LICENSE_KEY = ''95001958328698042535''"

definition validateLicense :: "string \<Rightarrow> bool" where
  "validateLicense licenseKey =
     (let normalized = replaceNonDigits licenseKey in normalized = VALID_LICENSE_KEY)"

text \<open>
  What is found at \<open>licenseFilePath\<close>: nothing, a file with its content, or
  something that is neither readable nor writable as a file (a directory).
  \<open>readFileSync\<close> and \<open>writeFileSync\<close> throw on the latter; the functions of
  the module catch the exception. A file that can be written need not be readable: a read
  also throws when the process is not allowed to read the file (a write-only license
  file). Whether it is allowed is the argument \<open>readable\<close> of the read.
\<close>

datatype node = Missing | File string | Directory

datatype fs_error = ENOENT | EISDIR | EACCES

definition existsSync :: "node \<Rightarrow> bool" where
  "existsSync n = (n \<noteq> Missing)"

fun readFileSync :: "bool \<Rightarrow> node \<Rightarrow> fs_error + string" where
  "readFileSync readable Missing = Inl ENOENT"
| "readFileSync readable (File content) = (if readable then Inr content else Inl EACCES)"
| "readFileSync readable Directory = Inl EISDIR"

fun writeFileSync :: "node \<Rightarrow> string \<Rightarrow> fs_error + node" where
  "writeFileSync Directory content = Inl EISDIR"
| "writeFileSync n content = Inr (File content)"

fun unlinkSync :: "node \<Rightarrow> fs_error + node" where
  "unlinkSync Missing = Inl ENOENT"
| "unlinkSync (File content) = Inr Missing"
| "unlinkSync Directory = Inl EISDIR"

definition getStoredLicense :: "bool \<Rightarrow> node \<Rightarrow> string option" where
  "getStoredLicense readable n =
     (if existsSync n then
        (case readFileSync readable n of
           Inl e \<Rightarrow> None
         | Inr content \<Rightarrow>
             (let licenseKey = trim content
              in if validateLicense licenseKey then Some licenseKey else None))
      else None)"

definition storeLicenseKey :: "node \<Rightarrow> string \<Rightarrow> node \<times> bool" where
  "storeLicenseKey n licenseKey =
     (let normalized = replaceNonDigits licenseKey
      in if validateLicense normalized then
           (case writeFileSync n normalized of
              Inl e \<Rightarrow> (n, False)
            | Inr n' \<Rightarrow> (n', True))
         else (n, False))"

text \<open>The three request handlers of the control surface that concern the license.\<close>

definition check_license :: "bool \<Rightarrow> node \<Rightarrow> bool" where
  "check_license readable n =
     (let storedLicense = getStoredLicense readable n in storedLicense \<noteq> None)"

definition store_license :: "node \<Rightarrow> string \<Rightarrow> node \<times> bool" where
  "store_license n licenseKey = storeLicenseKey n licenseKey"

definition clear_license :: "node \<Rightarrow> node \<times> bool" where
  "clear_license n =
     (if existsSync n then
        (case unlinkSync n of Inl e \<Rightarrow> (n, False) | Inr n' \<Rightarrow> (n', True))
      else (n, True))"

section \<open>Environment of the child process\<close>

text \<open>
  An object of the host language with string keys: its own properties in insertion
  order. A property's value is a string or \<open>undefined\<close> (\<open>None\<close>).
\<close>

type_synonym jsobj = "(string \<times> string option) list"

fun obj_set :: "jsobj \<Rightarrow> string \<Rightarrow> string option \<Rightarrow> jsobj" where
  "obj_set [] k v = [(k, v)]"
| "obj_set ((k', v') # kvs) k v =
     (if k' = k then (k, v) # kvs else (k', v') # obj_set kvs k v)"

definition obj_get :: "jsobj \<Rightarrow> string \<Rightarrow> string option option" where
  \<comment> \<open>\<open>None\<close>: no such property; \<open>Some None\<close>: the property is there and undefined\<close>
  "obj_get obj k = map_of obj k"

definition obj_keys :: "jsobj \<Rightarrow> string list" where
  "obj_keys obj = map fst obj"

definition obj_delete :: "jsobj \<Rightarrow> string \<Rightarrow> jsobj" where
  "obj_delete obj k = filter (\<lambda>kv. fst kv \<noteq> k) obj"

definition spread :: "(string \<times> string) list \<Rightarrow> jsobj" where
  \<comment> \<open>\<open>{ ...process.env }\<close>\<close>
  "spread penv = fold (\<lambda>kv obj. obj_set obj (fst kv) (Some (snd kv))) penv []"

datatype platform = Darwin | Linux | Win32 | OtherPlatform

definition pythonPaths :: "string list" where
  "pythonPaths =
     [''/usr/local/bin'',
      ''/opt/homebrew/bin'',
      ''/usr/bin'',
      ''/Library/Frameworks/Python.framework/Versions/3.13/bin'',
      ''/Library/Frameworks/Python.framework/Versions/3.12/bin'',
      ''/Library/Frameworks/Python.framework/Versions/3.11/bin'',
      ''/Library/Frameworks/Python.framework/Versions/3.10/bin'',
      ''/Library/Frameworks/Python.framework/Versions/3.9/bin'']"

definition computePathEnv ::
  "bool \<Rightarrow> platform \<Rightarrow> (string \<Rightarrow> bool) \<Rightarrow> (string \<times> string) list \<Rightarrow> string" where
  \<comment> \<open>\<open>existing\<close> is \<open>fs.existsSync\<close> on the directories of \<open>pythonPaths\<close>\<close>
  "computePathEnv isDev plat existing penv =
     (let pathEnv = (case map_of penv ''PATH'' of None \<Rightarrow> [] | Some p \<Rightarrow> p)
      in if \<not> isDev \<and> plat = Darwin then
           fold (\<lambda>pythonPath pathEnv.
                   if existing pythonPath \<and> \<not> str_includes pathEnv pythonPath
                   then pythonPath @ '':'' @ pathEnv else pathEnv)
             pythonPaths pathEnv
         else pathEnv)"

text \<open>
  The directories are constants of the module computed from the user-data path; they
  are parameters here: \<open>backendPath\<close>, \<open>databasePath\<close> for
  \<open>path.join(dataDir, 'billtrim.db')\<close>, \<open>uploadsDir\<close> and \<open>logsDir\<close>.
\<close>

record dirs =
  backendPath :: string
  databasePath :: string
  uploadsDir :: string
  logsDir :: string

definition envLiteral :: "bool \<Rightarrow> string \<Rightarrow> dirs \<Rightarrow> (string \<times> string) list \<Rightarrow> jsobj" where
  "envLiteral isDev pathEnv d penv =
     (let env = spread penv;
          env = obj_set env ''PATH'' (Some pathEnv);
          env = obj_set env ''PYTHONPATH'' (Some (backendPath d));
          env = obj_set env ''PYTHONUNBUFFERED'' (Some ''1'');
          env = obj_set env ''DATABASE_PATH'' (if isDev then None else Some (databasePath d));
          env = obj_set env ''UPLOAD_DIR'' (if isDev then None else Some (uploadsDir d));
          env = obj_set env ''BILLTRIM_LOG_DIR'' (Some (logsDir d))
      in env)"

definition removeUndefined :: "jsobj \<Rightarrow> jsobj" where
  \<comment> \<open>\<open>Object.keys(env).forEach(key => { if (env[key] === undefined) delete env[key] })\<close>\<close>
  "removeUndefined env =
     fold (\<lambda>key env. if obj_get env key = Some None then obj_delete env key else env)
       (obj_keys env) env"

definition childEnv ::
  "bool \<Rightarrow> platform \<Rightarrow> (string \<Rightarrow> bool) \<Rightarrow> dirs \<Rightarrow> (string \<times> string) list \<Rightarrow> jsobj" where
  "childEnv isDev plat existing d penv =
     removeUndefined (envLiteral isDev (computePathEnv isDev plat existing penv) d penv)"

section \<open>Numbers and booleans in template strings\<close>

definition digitChar :: "nat \<Rightarrow> char" where
  "digitChar d =
     (if d = 0 then CHR ''0'' else if d = 1 then CHR ''1'' else if d = 2 then CHR ''2''
      else if d = 3 then CHR ''3'' else if d = 4 then CHR ''4'' else if d = 5 then CHR ''5''
      else if d = 6 then CHR ''6'' else if d = 7 then CHR ''7'' else if d = 8 then CHR ''8''
      else CHR ''9'')"

function showNat :: "nat \<Rightarrow> string" where
  "showNat n = (if n < 10 then [digitChar n] else showNat (n div 10) @ [digitChar (n mod 10)])"
  by pat_completeness auto
termination
  by (relation "measure id") auto

declare showNat.simps [simp del]

definition showInt :: "int \<Rightarrow> string" where
  "showInt i = (if i < 0 then ''-'' @ showNat (nat (- i)) else showNat (nat i))"

definition showBool :: "bool \<Rightarrow> string" where
  "showBool b = (if b then ''true'' else ''false'')"

definition LF :: string where
  "LF = [CHR 0x0A]"

section \<open>Port reclaimer\<close>

definition BACKEND_PORT :: nat where
  "BACKEND_PORT = 8765"

text \<open>
  What \<open>exec\<close> hands to its callback: the error, if the command failed, and the text
  the command wrote to its standard output.
\<close>

record exec_result =
  execError :: "string option"
  execStdout :: string

text \<open>
  \<open>killExistingBackend\<close> returns a promise; its body runs commands, calls the
  promise's \<open>resolve\<close> and arms a timer whose callback is \<open>resolve\<close>. The model
  returns what the body does, in program order. \<open>ResolveAfter ms\<close> is
  \<open>setTimeout(resolve, ms)\<close>: it returns at once, and \<open>resolve\<close> runs \<open>ms\<close>
  milliseconds later.
\<close>

datatype effect = Exec string | ResolveNow | ResolveAfter nat

definition isError :: "string option \<Rightarrow> bool" where
  \<comment> \<open>the truth value of a callback's \<open>error\<close> argument: null or an error object\<close>
  "isError e = (case e of None \<Rightarrow> False | Some msg \<Rightarrow> True)"

definition killExistingBackend ::
  "platform \<Rightarrow> exec_result \<Rightarrow> string option \<Rightarrow> effect list" where
  \<comment> \<open>\<open>found\<close>: the outcome of the enumeration command; \<open>killError\<close>: the error of the
      kill command, if it failed\<close>
  "killExistingBackend plat found killError =
     (let command =
            (if plat = Darwin \<or> plat = Linux
             then ''lsof -ti:'' @ showNat BACKEND_PORT
             else ''netstat -ano | findstr :'' @ showNat BACKEND_PORT)
      in Exec command #
         (if isError (execError found) \<or> trim (execStdout found) = [] then [ResolveNow]
          else
            (let pids = filter (\<lambda>pid. trim pid \<noteq> []) (split (CHR 0x0A) (trim (execStdout found)))
             in if length pids = 0 then [ResolveNow]
                else
                  (let killCommand =
                         (if plat = Darwin \<or> plat = Linux
                          then ''kill -9 '' @ join '' '' pids
                          else ''taskkill /F /PID '' @ join '' /PID '' pids)
                   in Exec killCommand #
                      (if isError killError then [] else [ResolveAfter 1000]) @ [ResolveNow]))))"

text \<open>
  The delays, counted from the moment the body's last callback runs, after which
  \<open>resolve\<close> is called; the promise is settled by the earliest call, and the
  \<open>await\<close> in \<open>startBackend\<close> goes on from there.
\<close>

fun resolveDelays :: "effect list \<Rightarrow> nat list" where
  "resolveDelays [] = []"
| "resolveDelays (Exec c # es) = resolveDelays es"
| "resolveDelays (ResolveNow # es) = 0 # resolveDelays es"
| "resolveDelays (ResolveAfter ms # es) = ms # resolveDelays es"

fun settledAfter :: "effect list \<Rightarrow> nat option" where
  "settledAfter es =
     (case resolveDelays es of [] \<Rightarrow> None | d # ds \<Rightarrow> Some (fold min ds d))"

section \<open>One launch attempt\<close>

text \<open>
  The child process object of one \<open>spawn\<close>. The runtime sets \<open>exitCode\<close> when the
  child exits on its own and \<open>signalCode\<close> when a signal ends it (then \<open>exitCode\<close>
  stays null); \<open>killed\<close> becomes true when \<open>kill()\<close> of this object delivered a
  signal.
\<close>

record child =
  killed :: bool
  exitCode :: "int option"
  signalCode :: "string option"

datatype exit_status = ExitCode int | Signal string

definition freshChild :: child where
  "freshChild = \<lparr>killed = False, exitCode = None, signalCode = None\<rparr>"

definition hasExited :: "child \<Rightarrow> bool" where
  "hasExited c = (\<not> (exitCode c = None \<and> signalCode c = None))"

definition kill :: "child \<Rightarrow> child" where
  \<comment> \<open>\<open>backendProcess.kill()\<close>: no signal is delivered to a child that has exited\<close>
  "kill c = (if hasExited c then c else c\<lparr>killed := True\<rparr>)"

fun recordExit :: "exit_status \<Rightarrow> child \<Rightarrow> child" where
  "recordExit (ExitCode n) c = c\<lparr>exitCode := Some n\<rparr>"
| "recordExit (Signal sig) c = c\<lparr>signalCode := Some sig\<rparr>"

fun codeOf :: "exit_status \<Rightarrow> int option" where
  \<comment> \<open>the \<open>code\<close> argument of the \<open>exit\<close> listener; null for a signal\<close>
  "codeOf (ExitCode n) = Some n"
| "codeOf (Signal sig) = None"

datatype probe_result = Response nat | RequestError | RequestTimeout

datatype outcome = Ready | Failed string

text \<open>
  The variables of one call of \<open>startBackend\<close> after \<open>spawn\<close>, what the runtime still
  holds for it (the deadline timer, the debounce timers, the health requests under way)
  and the calls made so far on the promise: \<open>resolve()\<close> is \<open>Ready\<close>,
  \<open>reject(new Error(msg))\<close> is \<open>Failed msg\<close>. The promise keeps the first of them.
  \<open>stdoutOutput\<close> and \<open>errorOutput\<close> hold the chunks that the \<open>data\<close> events
  of the two streams delivered, in order; \<open>debouncesArmed\<close> and \<open>probesSent\<close> count
  the debounce timers armed and the health requests sent since the spawn, and
  \<open>debounceProbes\<close> counts the requests among them that a debounce callback sent.
\<close>

record attempt =
  child :: child
  backendReady :: bool
  errorOutput :: "string list"
  stdoutOutput :: "string list"
  sawStartupBegin :: bool
  sawMigrations :: bool
  healthCheckScheduled :: bool
  timeoutId :: bool
  deadlinePending :: bool
  debouncePending :: nat
  probesPending :: nat
  settles :: "outcome list"
  debouncesArmed :: nat
  probesSent :: nat
  debounceProbes :: nat

definition freshAttempt :: attempt where
  "freshAttempt =
     \<lparr>child = freshChild, backendReady = False, errorOutput = [], stdoutOutput = [],
      sawStartupBegin = False, sawMigrations = False, healthCheckScheduled = False,
      timeoutId = True, deadlinePending = True, debouncePending = 0, probesPending = 0,
      settles = [], debouncesArmed = 0, probesSent = 0, debounceProbes = 0\<rparr>"

definition promiseState :: "attempt \<Rightarrow> outcome option" where
  "promiseState a = (case settles a of [] \<Rightarrow> None | x # xs \<Rightarrow> Some x)"

text \<open>The variables of the module that outlive an attempt.\<close>

record globals =
  backendWasReady :: bool
  backendRestartCount :: nat
  restartsQueued :: nat

definition clearTimeoutId :: "attempt \<Rightarrow> attempt" where
  \<comment> \<open>\<open>if (timeoutId) { clearTimeout(timeoutId); timeoutId = null; }\<close>\<close>
  "clearTimeoutId a = (if timeoutId a then a\<lparr>timeoutId := False, deadlinePending := False\<rparr> else a)"

definition resolveWithCleanup :: "globals \<times> attempt \<Rightarrow> globals \<times> attempt" where
  "resolveWithCleanup ga =
     (case ga of (g, a) \<Rightarrow>
        if \<not> backendReady a then
          (let a = a\<lparr>backendReady := True\<rparr>;
               g = g\<lparr>backendWasReady := True\<rparr>;
               a = clearTimeoutId a
           in (g, a\<lparr>settles := settles a @ [Ready]\<rparr>))
        else (g, a))"

definition scheduleHealthCheck :: "attempt \<Rightarrow> attempt" where
  \<comment> \<open>\<open>healthCheckScheduled = true; setTimeout(..., 2000)\<close>\<close>
  "scheduleHealthCheck a =
     a\<lparr>healthCheckScheduled := True, debouncePending := Suc (debouncePending a),
       debouncesArmed := Suc (debouncesArmed a)\<rparr>"

definition trackProgress :: "string \<Rightarrow> attempt \<Rightarrow> attempt" where
  "trackProgress output a =
     (let a = (if str_includes output ''Started server process''
               then a\<lparr>sawStartupBegin := True\<rparr> else a)
      in if str_includes output ''migration'' \<or> str_includes output ''alembic''
            \<or> str_includes output ''alembic.runtime.migration''
         then a\<lparr>sawMigrations := True\<rparr> else a)"

definition onStdout :: "string \<Rightarrow> attempt \<Rightarrow> attempt" where
  "onStdout output a =
     (let a = a\<lparr>stdoutOutput := stdoutOutput a @ [output]\<rparr>;
          a = trackProgress output a;
          a = (if str_includes output ''Uvicorn running on'' then
                 (if \<not> backendReady a \<and> \<not> healthCheckScheduled a
                  then scheduleHealthCheck a else a)
               else a)
      in if str_includes output ''=== Application startup complete ==='' then
           (if \<not> backendReady a \<and> \<not> healthCheckScheduled a
            then scheduleHealthCheck a else a)
         else a)"

definition onStderr :: "string \<Rightarrow> attempt \<Rightarrow> attempt" where
  "onStderr output a =
     (let a = a\<lparr>errorOutput := errorOutput a @ [output]\<rparr>;
          a = trackProgress output a
      in if (str_includes output ''Uvicorn running on''
             \<or> str_includes output ''=== Application startup complete ==='')
            \<and> \<not> backendReady a \<and> \<not> healthCheckScheduled a
         then scheduleHealthCheck a else a)"

definition sendProbe :: "attempt \<Rightarrow> attempt" where
  \<comment> \<open>\<open>http.get(BACKEND_URL + '/health', ...)\<close>\<close>
  "sendProbe a = a\<lparr>probesPending := Suc (probesPending a), probesSent := Suc (probesSent a)\<rparr>"

definition onDebounce :: "attempt \<Rightarrow> attempt" where
  \<comment> \<open>the callback of the 2000 ms timer\<close>
  "onDebounce a =
     (if \<not> backendReady a
      then (sendProbe a)\<lparr>debounceProbes := Suc (debounceProbes a)\<rparr>
      else a)"

fun onProbeDone :: "probe_result \<Rightarrow> globals \<times> attempt \<Rightarrow> globals \<times> attempt" where
  \<comment> \<open>status 200 resolves; any other status, a request error and the request's timeout
      reject the inner promise, and the \<open>catch\<close> resolves all the same\<close>
  "onProbeDone (Response statusCode) ga =
     (if statusCode = 200 then resolveWithCleanup ga else resolveWithCleanup ga)"
| "onProbeDone RequestError ga = resolveWithCleanup ga"
| "onProbeDone RequestTimeout ga = resolveWithCleanup ga"

definition onError :: "string \<Rightarrow> attempt \<Rightarrow> attempt" where
  \<comment> \<open>the \<open>error\<close> listener of the child: \<open>reject(error)\<close>\<close>
  "onError msg a = a\<lparr>settles := settles a @ [Failed msg]\<rparr>"

text \<open>
  The runtime emits \<open>error\<close> when the child could not be spawned, and then it has
  set \<open>exitCode\<close> to the negative error number and emits no \<open>exit\<close>; it also
  emits \<open>error\<close> for a failure that leaves the child as it is (a signal that could
  not be delivered).
\<close>

datatype proc_error = SpawnFailed int string | OtherFailure string

definition onProcError :: "proc_error \<Rightarrow> attempt \<Rightarrow> attempt" where
  "onProcError e a =
     (case e of
        SpawnFailed errno msg \<Rightarrow>
          if hasExited (child a) then a
          else onError msg (a\<lparr>child := (child a)\<lparr>exitCode := Some errno\<rparr>\<rparr>)
      | OtherFailure msg \<Rightarrow> onError msg a)"

definition exitMessage :: "int \<Rightarrow> attempt \<Rightarrow> string" where
  "exitMessage code a =
     join LF ([''Backend exited with code '' @ showInt code, ''--- STDOUT ---'']
              @ stdoutOutput a @ [''--- STDERR ---''] @ errorOutput a)"

definition onExit :: "exit_status \<Rightarrow> globals \<times> attempt \<Rightarrow> globals \<times> attempt" where
  "onExit st ga =
     (case ga of (g, a) \<Rightarrow>
        (case codeOf st of
           None \<Rightarrow> (g, a)
         | Some code \<Rightarrow>
             if code \<noteq> 0 then
               (if \<not> backendReady a then
                  (g, a\<lparr>settles := settles a @ [Failed (exitMessage code a)]\<rparr>)
                else if backendWasReady g \<and> backendRestartCount g < 1 then
                  (g\<lparr>backendRestartCount := backendRestartCount g + 1,
                     restartsQueued := Suc (restartsQueued g)\<rparr>, a)
                else (g, a))
             else (g, a)))"

definition stillRunning :: "child option \<Rightarrow> bool" where
  \<comment> \<open>\<open>backendProcess && !backendProcess.killed && backendProcess.exitCode === null\<close>\<close>
  "stillRunning bp = (case bp of None \<Rightarrow> False | Some c \<Rightarrow> \<not> killed c \<and> exitCode c = None)"

definition timeoutMessage :: "child option \<Rightarrow> attempt \<Rightarrow> string" where
  "timeoutMessage bp a =
     join LF
       ([''Backend startup timeout - process may have exited'',
         ''Process killed: '' @ (case bp of None \<Rightarrow> ''undefined'' | Some c \<Rightarrow> showBool (killed c)),
         ''Exit code: '' @ (case bp of None \<Rightarrow> ''undefined''
                            | Some c \<Rightarrow> (case exitCode c of None \<Rightarrow> ''null'' | Some n \<Rightarrow> showInt n)),
         ''Saw startup begin: '' @ showBool (sawStartupBegin a),
         ''Saw migrations: '' @ showBool (sawMigrations a),
         ''--- STDOUT ---'']
        @ sliceLast 50 (stdoutOutput a)
        @ [''--- STDERR ---'']
        @ sliceLast 50 (errorOutput a))"

definition onDeadline :: "child option \<Rightarrow> globals \<times> attempt \<Rightarrow> globals \<times> attempt" where
  \<comment> \<open>the callback of the 30000 ms timer; \<open>bp\<close> is the module's \<open>backendProcess\<close>\<close>
  "onDeadline bp ga =
     (case ga of (g, a) \<Rightarrow>
        if backendReady a then (g, a)
        else if stillRunning bp then (g, sendProbe a)
        else
          (let fullError = timeoutMessage bp a
           in if \<not> backendReady a
              then (let a = clearTimeoutId a in (g, a\<lparr>settles := settles a @ [Failed fullError]\<rparr>))
              else (g, a)))"

text \<open>
  What the event loop can deliver to an attempt. A timer fires only while it is pending,
  a request completes only while it is under way, a child exits once, and no spawn
  failure is reported for a child that has exited.
\<close>

datatype event =
    Stdout string
  | Stderr string
  | DebounceFired
  | DeadlineFired
  | ProbeDone probe_result
  | Exit exit_status
  | ProcError proc_error

fun step :: "child option \<Rightarrow> globals \<times> attempt \<Rightarrow> event \<Rightarrow> globals \<times> attempt" where
  "step bp (g, a) (Stdout output) = (g, onStdout output a)"
| "step bp (g, a) (Stderr output) = (g, onStderr output a)"
| "step bp (g, a) DebounceFired =
     (if 0 < debouncePending a
      then (g, onDebounce (a\<lparr>debouncePending := debouncePending a - 1\<rparr>))
      else (g, a))"
| "step bp (g, a) DeadlineFired =
     (if deadlinePending a
      then onDeadline bp (g, a\<lparr>deadlinePending := False\<rparr>)
      else (g, a))"
| "step bp (g, a) (ProbeDone r) =
     (if 0 < probesPending a
      then onProbeDone r (g, a\<lparr>probesPending := probesPending a - 1\<rparr>)
      else (g, a))"
| "step bp (g, a) (Exit st) =
     (if hasExited (child a) then (g, a)
      else onExit st (g, a\<lparr>child := recordExit st (child a)\<rparr>))"
| "step bp (g, a) (ProcError e) = (g, onProcError e a)"

text \<open>
  An attempt on its own: the module's \<open>backendProcess\<close> is the attempt's child for
  the whole run.
\<close>

fun runAttempt :: "event list \<Rightarrow> globals \<times> attempt \<Rightarrow> globals \<times> attempt" where
  "runAttempt [] ga = ga"
| "runAttempt (ev # evs) ga = runAttempt evs (step (Some (child (snd ga))) ga ev)"

definition freshGlobals :: globals where
  "freshGlobals = \<lparr>backendWasReady = False, backendRestartCount = 0, restartsQueued = 0\<rparr>"

section \<open>The supervisor session\<close>

text \<open>
  The module's state for one run of the application: its variables, every attempt
  spawned so far (attempt \<open>i\<close> owns the child of the \<open>i\<close>-th spawn) and
  \<open>backendProcess\<close>, which refers to the child spawned last until a handler sets it
  to null. \<open>oplog\<close> records, in order, the port reclamations, the spawns, the calls of
  \<open>kill()\<close> and the launches rejected before \<open>spawn\<close>. A call of
  \<open>startBackend\<close> is one event here: it reclaims the port, resolves the interpreter
  and spawns.
\<close>

datatype op = PortReclaim | Spawn nat | Kill nat | LaunchRejected

record session =
  glob :: globals
  backendProcess :: "nat option"
  attempts :: "attempt list"
  oplog :: "op list"

definition initSession :: session where
  "initSession = \<lparr>glob = freshGlobals, backendProcess = None, attempts = [], oplog = []\<rparr>"

definition currentChild :: "session \<Rightarrow> child option" where
  "currentChild s =
     (case backendProcess s of
        None \<Rightarrow> None
      | Some j \<Rightarrow> if j < length (attempts s) then Some (child (attempts s ! j)) else None)"

definition startBackend :: "bool \<Rightarrow> session \<Rightarrow> session" where
  \<comment> \<open>\<open>pythonOk\<close>: an interpreter was found, exists and is executable; otherwise the
      call rejects before \<open>spawn\<close>\<close>
  "startBackend pythonOk s =
     (let s = s\<lparr>oplog := oplog s @ [PortReclaim]\<rparr>
      in if \<not> pythonOk then s\<lparr>oplog := oplog s @ [LaunchRejected]\<rparr>
         else s\<lparr>backendProcess := Some (length (attempts s)),
                attempts := attempts s @ [freshAttempt],
                oplog := oplog s @ [Spawn (length (attempts s))]\<rparr>)"

definition killCurrent :: "session \<Rightarrow> session" where
  \<comment> \<open>\<open>if (backendProcess) { backendProcess.kill(); backendProcess = null; }\<close>\<close>
  "killCurrent s =
     (case backendProcess s of
        None \<Rightarrow> s
      | Some j \<Rightarrow>
          if j < length (attempts s) then
            s\<lparr>attempts := (attempts s)[j := (attempts s ! j)\<lparr>child := kill (child (attempts s ! j))\<rparr>],
              backendProcess := None,
              oplog := oplog s @ [Kill j]\<rparr>
          else s\<lparr>backendProcess := None\<rparr>)"

definition restartBackend :: "bool \<Rightarrow> session \<Rightarrow> session" where
  \<comment> \<open>the handler of the \<open>restart-backend\<close> request, up to the new spawn\<close>
  "restartBackend pythonOk s =
     (let s = killCurrent s;
          s = s\<lparr>oplog := oplog s @ [PortReclaim]\<rparr>
      in startBackend pythonOk s)"

datatype sevent =
    AppReady bool
  | AttemptEvent nat event
  | RunQueuedRestart bool
  | RestartRequest bool
  | WindowAllClosed
  | BeforeQuit

fun sstep :: "session \<Rightarrow> sevent \<Rightarrow> session" where
  "sstep s (AppReady pythonOk) = startBackend pythonOk s"
| "sstep s (AttemptEvent i ev) =
     (if i < length (attempts s) then
        (case step (currentChild s) (glob s, attempts s ! i) ev of
           (g, a) \<Rightarrow> s\<lparr>glob := g, attempts := (attempts s)[i := a]\<rparr>)
      else s)"
| "sstep s (RunQueuedRestart pythonOk) =
     (if 0 < restartsQueued (glob s)
      then startBackend pythonOk
             (s\<lparr>glob := (glob s)\<lparr>restartsQueued := restartsQueued (glob s) - 1\<rparr>\<rparr>)
      else s)"
| "sstep s (RestartRequest pythonOk) = restartBackend pythonOk s"
| "sstep s WindowAllClosed = killCurrent s"
| "sstep s BeforeQuit = killCurrent s"

fun run :: "sevent list \<Rightarrow> session \<Rightarrow> session" where
  "run [] s = s"
| "run (ev # evs) s = run evs (sstep s ev)"

definition unexpectedExit :: "exit_status \<Rightarrow> bool" where
  \<comment> \<open>\<open>code !== 0 && code !== null\<close>\<close>
  "unexpectedExit st = (case codeOf st of None \<Rightarrow> False | Some code \<Rightarrow> code \<noteq> 0)"

definition isMarker :: "string \<Rightarrow> bool" where
  "isMarker output =
     (str_includes output ''Uvicorn running on''
      \<or> str_includes output ''=== Application startup complete ==='')"


definition readyInv :: "attempt \<Rightarrow> bool" where
  "readyInv a =
     (count_list (settles a) Ready = (if backendReady a then 1 else 0)
      \<and> (if backendReady a then \<not> timeoutId a \<and> \<not> deadlinePending a
          else deadlinePending a = False \<or> timeoutId a))"




section \<open>Properties of the license record\<close>

lemma replaceNonDigits_idem: "replaceNonDigits (replaceNonDigits s) = replaceNonDigits s"
  by (simp add: replaceNonDigits_def)

lemma validateLicense_normalized:
  "validateLicense (replaceNonDigits s) = (replaceNonDigits s = VALID_LICENSE_KEY)"
  by (simp add: validateLicense_def replaceNonDigits_idem)

lemma replaceNonDigits_reference: "replaceNonDigits VALID_LICENSE_KEY = VALID_LICENSE_KEY"
  by (simp add: replaceNonDigits_def VALID_LICENSE_KEY_def isDigit_def)

lemma trim_reference: "trim VALID_LICENSE_KEY = VALID_LICENSE_KEY"
  by (simp add: trim_def VALID_LICENSE_KEY_def isWhiteSpace_def)

lemma getStoredLicense_reference:
  "getStoredLicense readable (File VALID_LICENSE_KEY) = (if readable then Some VALID_LICENSE_KEY else None)"
  by (simp add: getStoredLicense_def existsSync_def trim_reference validateLicense_def
      replaceNonDigits_reference)

lemma storeLicenseKey_cases:
  "storeLicenseKey n rawKey =
     (if replaceNonDigits rawKey = VALID_LICENSE_KEY \<and> n \<noteq> Directory
      then (File VALID_LICENSE_KEY, True) else (n, False))"
  by (cases n) (simp_all add: storeLicenseKey_def validateLicense_normalized Let_def)




text \<open>
  C10, as the code has it. After a store that answered \<open>True\<close> the license file
  holds the reference, and the check that follows on that file answers \<open>True\<close>
  exactly when its read of the file does not throw; a read that goes through returns
  the reference, which is validated again. When the read throws, \<open>getStoredLicense\<close>
  catches the error and the check answers \<open>False\<close>.
\<close>

theorem store_then_check_license:
  assumes "snd (store_license n rawKey)"
  shows "(check_license readable (fst (store_license n rawKey))
           \<longleftrightarrow> \<not> isl (readFileSync readable (fst (store_license n rawKey))))
    \<and> readFileSync True (fst (store_license n rawKey)) = Inr VALID_LICENSE_KEY
    \<and> getStoredLicense True (fst (store_license n rawKey)) = Some VALID_LICENSE_KEY
    \<and> check_license True (fst (store_license n rawKey))"
  using assms
  by (simp add: store_license_def storeLicenseKey_cases check_license_def
      getStoredLicense_reference split: if_splits)

theorem store_then_check_license_witness:
  "snd (store_license Missing ''9500-1958-328698042535'')
   \<and> check_license True (fst (store_license Missing ''9500-1958-328698042535''))
   \<and> getStoredLicense True (fst (store_license Missing ''9500-1958-328698042535''))
       = Some ''95001958328698042535''"
proof -
  have "replaceNonDigits ''9500-1958-328698042535'' = VALID_LICENSE_KEY"
    by (simp add: replaceNonDigits_def isDigit_def VALID_LICENSE_KEY_def)
  then have h: "snd (store_license Missing ''9500-1958-328698042535'')"
    by (simp add: store_license_def storeLicenseKey_cases)
  from h store_then_check_license [OF h, of True] show ?thesis
    by (simp add: VALID_LICENSE_KEY_def)
qed

text \<open>
  C10 as it is worded fails on a license file that the process may write and not read:
  the store answers \<open>True\<close>, the file holds the reference, the read of the check
  throws and the check answers \<open>False\<close>.
\<close>

theorem store_then_check_fails_on_unreadable_file:
  "store_license (File ''old'') ''9500-1958-328698042535'' = (File ''95001958328698042535'', True)
   \<and> readFileSync False (fst (store_license (File ''old'') ''9500-1958-328698042535'')) = Inl EACCES
   \<and> check_license False (fst (store_license (File ''old'') ''9500-1958-328698042535'')) = False"
proof -
  have "replaceNonDigits ''9500-1958-328698042535'' = VALID_LICENSE_KEY"
    by (simp add: replaceNonDigits_def isDigit_def VALID_LICENSE_KEY_def)
  then have st: "store_license (File ''old'') ''9500-1958-328698042535'' = (File VALID_LICENSE_KEY, True)"
    by (simp add: store_license_def storeLicenseKey_cases)
  have chk: "check_license False (File VALID_LICENSE_KEY) = False"
    by (simp add: check_license_def getStoredLicense_reference)
  have rd: "readFileSync False (File VALID_LICENSE_KEY) = Inl EACCES"
    by simp
  from st chk rd show ?thesis
    by (simp add: VALID_LICENSE_KEY_def)
qed

section \<open>Properties of the child's environment\<close>

lemma map_of_obj_set:
  "map_of (obj_set obj k v) k' = (if k' = k then Some v else map_of obj k')"
  by (induction obj) auto

lemma obj_get_obj_set:
  "obj_get (obj_set obj k v) k' = (if k' = k then Some v else obj_get obj k')"
  by (simp add: obj_get_def map_of_obj_set)

lemma map_of_obj_delete:
  "map_of (obj_delete obj k) k' = (if k' = k then None else map_of obj k')"
  by (induction obj) (auto simp: obj_delete_def)

lemma map_of_remove_loop:
  "map_of (fold (\<lambda>key env. if map_of env key = Some None then obj_delete env key else env) ks env) k
   = (if k \<in> set ks \<and> map_of env k = Some None then None else map_of env k)"
proof (induction ks arbitrary: env)
  case Nil
  show ?case by simp
next
  case (Cons a ks)
  show ?case
    by (auto simp: Cons.IH map_of_obj_delete)
qed

lemma obj_get_removeUndefined:
  "obj_get (removeUndefined env) k = (if obj_get env k = Some None then None else obj_get env k)"
proof -
  have "map_of env k = Some None \<Longrightarrow> k \<in> set (obj_keys env)"
    by (auto simp: obj_keys_def dest: map_of_SomeD intro: rev_image_eqI)
  then show ?thesis
    by (auto simp: removeUndefined_def obj_get_def map_of_remove_loop)
qed

lemma spread_loop_defined:
  "obj_get obj k \<noteq> Some None \<Longrightarrow>
   obj_get (fold (\<lambda>kv obj. obj_set obj (fst kv) (Some (snd kv))) penv obj) k \<noteq> Some None"
  by (induction penv arbitrary: obj) (simp_all add: obj_get_obj_set)

lemma spread_defined: "obj_get (spread penv) k \<noteq> Some None"
  unfolding spread_def by (rule spread_loop_defined) (simp add: obj_get_def)

lemma obj_get_envLiteral:
  "obj_get (envLiteral isDev pathEnv d penv) k =
     (if k = ''BILLTRIM_LOG_DIR'' then Some (Some (logsDir d))
      else if k = ''UPLOAD_DIR'' then Some (if isDev then None else Some (uploadsDir d))
      else if k = ''DATABASE_PATH'' then Some (if isDev then None else Some (databasePath d))
      else if k = ''PYTHONUNBUFFERED'' then Some (Some ''1'')
      else if k = ''PYTHONPATH'' then Some (Some (backendPath d))
      else if k = ''PATH'' then Some (Some pathEnv)
      else obj_get (spread penv) k)"
  by (simp add: envLiteral_def Let_def obj_get_obj_set)

lemma obj_get_childEnv:
  "obj_get (childEnv isDev plat existing d penv) k =
     (if k = ''BILLTRIM_LOG_DIR'' then Some (Some (logsDir d))
      else if k = ''UPLOAD_DIR'' then (if isDev then None else Some (Some (uploadsDir d)))
      else if k = ''DATABASE_PATH'' then (if isDev then None else Some (Some (databasePath d)))
      else if k = ''PYTHONUNBUFFERED'' then Some (Some ''1'')
      else if k = ''PYTHONPATH'' then Some (Some (backendPath d))
      else if k = ''PATH'' then Some (Some (computePathEnv isDev plat existing penv))
      else obj_get (spread penv) k)"
  using spread_defined [of penv k]
  by (simp add: childEnv_def obj_get_removeUndefined obj_get_envLiteral)

text \<open>
  C9, as the code has it. In the environment handed to \<open>spawn\<close> no variable is
  undefined: a variable whose computed value is undefined is absent, every other one
  keeps its value. The database path and the upload directory are injected in packaged
  mode only and are absent in development mode; the log directory is injected in both
  modes.
\<close>

theorem child_env_overrides:
  "(\<forall>k. obj_get (childEnv isDev plat existing d penv) k \<noteq> Some None)
   \<and> (\<forall>k. obj_get (childEnv isDev plat existing d penv) k =
          (case obj_get (envLiteral isDev (computePathEnv isDev plat existing penv) d penv) k of
             Some None \<Rightarrow> None | r \<Rightarrow> r))
   \<and> obj_get (childEnv isDev plat existing d penv) ''DATABASE_PATH'' =
       (if isDev then None else Some (Some (databasePath d)))
   \<and> obj_get (childEnv isDev plat existing d penv) ''UPLOAD_DIR'' =
       (if isDev then None else Some (Some (uploadsDir d)))
   \<and> obj_get (childEnv isDev plat existing d penv) ''BILLTRIM_LOG_DIR'' = Some (Some (logsDir d))"
proof -
  have a: "\<forall>k. obj_get (childEnv isDev plat existing d penv) k \<noteq> Some None"
    using spread_defined [of penv] by (simp add: obj_get_childEnv)
  have b: "\<forall>k. obj_get (childEnv isDev plat existing d penv) k =
          (case obj_get (envLiteral isDev (computePathEnv isDev plat existing penv) d penv) k of
             Some None \<Rightarrow> None | r \<Rightarrow> r)"
    by (auto simp: childEnv_def obj_get_removeUndefined split: option.splits)
  have c: "obj_get (childEnv isDev plat existing d penv) ''DATABASE_PATH'' =
       (if isDev then None else Some (Some (databasePath d)))"
    by (simp add: obj_get_childEnv)
  have d: "obj_get (childEnv isDev plat existing d penv) ''UPLOAD_DIR'' =
       (if isDev then None else Some (Some (uploadsDir d)))"
    by (simp add: obj_get_childEnv)
  have e: "obj_get (childEnv isDev plat existing d penv) ''BILLTRIM_LOG_DIR'' = Some (Some (logsDir d))"
    by (simp add: obj_get_childEnv)
  show ?thesis using a b c d e by blast
qed

theorem child_env_overrides_witness:
  "obj_get (childEnv True Linux (\<lambda>p. False)
      \<lparr>backendPath = ''/app/backend'', databasePath = ''/u/data/billtrim.db'',
       uploadsDir = ''/u/uploads'', logsDir = ''/u/logs''\<rparr>
      [(''HOME'', ''/home/u''), (''DATABASE_PATH'', ''/inherited.db'')]) ''DATABASE_PATH'' = None
   \<and> obj_get (childEnv False Linux (\<lambda>p. False)
      \<lparr>backendPath = ''/app/backend'', databasePath = ''/u/data/billtrim.db'',
       uploadsDir = ''/u/uploads'', logsDir = ''/u/logs''\<rparr>
      [(''HOME'', ''/home/u''), (''DATABASE_PATH'', ''/inherited.db'')]) ''DATABASE_PATH''
       = Some (Some ''/u/data/billtrim.db'')"
proof -
  let ?d = "\<lparr>backendPath = ''/app/backend'', databasePath = ''/u/data/billtrim.db'',
        uploadsDir = ''/u/uploads'', logsDir = ''/u/logs''\<rparr>"
  let ?penv = "[(''HOME'', ''/home/u''), (''DATABASE_PATH'', ''/inherited.db'')]"
  have dev: "obj_get (childEnv True Linux (\<lambda>p. False) ?d ?penv) ''DATABASE_PATH'' =
       (if True then None else Some (Some (databasePath ?d)))"
    using child_env_overrides [of True Linux "\<lambda>p. False" ?d ?penv] by blast
  have packaged: "obj_get (childEnv False Linux (\<lambda>p. False) ?d ?penv) ''DATABASE_PATH'' =
       (if False then None else Some (Some (databasePath ?d)))"
    using child_env_overrides [of False Linux "\<lambda>p. False" ?d ?penv] by blast
  from dev packaged show ?thesis by simp
qed

text \<open>
  C9 as it is worded fails for the log directory: in development mode the child's
  environment carries \<open>BILLTRIM_LOG_DIR\<close>.
\<close>

theorem log_dir_injected_in_development:
  "childEnv True Linux (\<lambda>p. False)
      \<lparr>backendPath = ''/app/backend'', databasePath = ''/u/data/billtrim.db'',
       uploadsDir = ''/u/uploads'', logsDir = ''/u/logs''\<rparr>
      [(''HOME'', ''/home/u'')]
   = [(''HOME'', Some ''/home/u''), (''PATH'', Some []), (''PYTHONPATH'', Some ''/app/backend''),
      (''PYTHONUNBUFFERED'', Some ''1''), (''BILLTRIM_LOG_DIR'', Some ''/u/logs'')]"
  by (simp add: childEnv_def removeUndefined_def envLiteral_def spread_def computePathEnv_def
      obj_keys_def obj_get_def obj_delete_def)

section \<open>Evaluating the template strings\<close>

lemma showNat_digit: "n < 10 \<Longrightarrow> showNat n = [digitChar n]"
  by (simp add: showNat.simps)

lemma showNat_more: "10 \<le> n \<Longrightarrow> showNat n = showNat (n div 10) @ [digitChar (n mod 10)]"
  by (subst showNat.simps) simp

lemma showNat_port: "showNat BACKEND_PORT = ''8765''"
  by (simp add: BACKEND_PORT_def showNat_digit showNat_more digitChar_def)

section \<open>Properties of the port reclaimer\<close>

lemma fold_min_zero: "fold min ds (0::nat) = 0"
  by (induction ds) simp_all

text \<open>
  On every path the promise of \<open>killExistingBackend\<close> is settled with no delay: the
  path that arms the one-second timer calls \<open>resolve\<close> right after arming it.
\<close>

lemma killExistingBackend_settles_at_once:
  "settledAfter (killExistingBackend plat found killError) = Some 0"
  by (simp add: killExistingBackend_def Let_def)

text \<open>
  C6 at a concrete input: \<open>lsof\<close> reports two processes on the port and the kill
  command succeeds. Both are named in the one kill command, the timer of 1000 ms is
  armed, and \<open>resolve\<close> is called in the same callback, so the caller goes on to
  \<open>spawn\<close> without the grace period.
\<close>

theorem reclaim_does_not_wait_for_grace_period:
  "killExistingBackend Linux \<lparr>execError = None, execStdout = ''1234'' @ LF @ ''5678'' @ LF\<rparr> None
     = [Exec ''lsof -ti:8765'', Exec ''kill -9 1234 5678'', ResolveAfter 1000, ResolveNow]
   \<and> settledAfter
        (killExistingBackend Linux \<lparr>execError = None, execStdout = ''1234'' @ LF @ ''5678'' @ LF\<rparr> None)
     = Some 0"
  by (simp add: killExistingBackend_def isError_def showNat_port trim_def isWhiteSpace_def LF_def
      Let_def)

section \<open>Properties of one launch attempt\<close>

lemmas attempt_defs =
  freshAttempt_def freshGlobals_def freshChild_def onStdout_def onStderr_def onDebounce_def
  onExit_def onDeadline_def onError_def onProcError_def resolveWithCleanup_def clearTimeoutId_def
  scheduleHealthCheck_def trackProgress_def sendProbe_def hasExited_def stillRunning_def

lemmas message_defs =
  exitMessage_def timeoutMessage_def sliceLast_def showInt_def showBool_def LF_def
  showNat_digit showNat_more digitChar_def

text \<open>
  C1 at two concrete event orders. A child that exits with code 1 before it is ready
  makes the exit listener reject; the listener neither sets \<open>backendReady\<close> nor clears
  the deadline, so the deadline fires and rejects a second time. When a marker had
  armed the debounce before the crash, the debounced probe fails against the dead
  child and \<open>resolveWithCleanup\<close> resolves the attempt that was rejected, and sets
  \<open>backendWasReady\<close>.
\<close>

theorem crash_before_ready_settles_twice:
  "settles (snd (runAttempt [Exit (ExitCode 1), DeadlineFired] (freshGlobals, freshAttempt)))
     = [Failed (join LF [''Backend exited with code 1'', ''--- STDOUT ---'', ''--- STDERR ---'']),
        Failed (join LF [''Backend startup timeout - process may have exited'',
                         ''Process killed: false'', ''Exit code: 1'',
                         ''Saw startup begin: false'', ''Saw migrations: false'',
                         ''--- STDOUT ---'', ''--- STDERR ---''])]
   \<and> settles (snd (runAttempt
        [Stdout ''Uvicorn running on http://127.0.0.1:8765'', Exit (ExitCode 1),
         DebounceFired, ProbeDone RequestError] (freshGlobals, freshAttempt)))
     = [Failed (join LF [''Backend exited with code 1'', ''--- STDOUT ---'',
                         ''Uvicorn running on http://127.0.0.1:8765'', ''--- STDERR ---'']),
        Ready]
   \<and> promiseState (snd (runAttempt
        [Stdout ''Uvicorn running on http://127.0.0.1:8765'', Exit (ExitCode 1),
         DebounceFired, ProbeDone RequestError] (freshGlobals, freshAttempt)))
     = Some (Failed (join LF [''Backend exited with code 1'', ''--- STDOUT ---'',
                         ''Uvicorn running on http://127.0.0.1:8765'', ''--- STDERR ---'']))
   \<and> backendReady (snd (runAttempt
        [Stdout ''Uvicorn running on http://127.0.0.1:8765'', Exit (ExitCode 1),
         DebounceFired, ProbeDone RequestError] (freshGlobals, freshAttempt)))
   \<and> backendWasReady (fst (runAttempt
        [Stdout ''Uvicorn running on http://127.0.0.1:8765'', Exit (ExitCode 1),
         DebounceFired, ProbeDone RequestError] (freshGlobals, freshAttempt)))"
  by (simp add: attempt_defs message_defs promiseState_def Let_def)

text \<open>
  C7 at a concrete input: after the crash before readiness the attempt is rejected and
  its deadline timer is still armed (\<open>timeoutId\<close> still holds it); a debounce timer
  armed before the crash is still pending as well.
\<close>

theorem crash_before_ready_leaves_timers_armed:
  "settles (snd (runAttempt [Exit (ExitCode 1)] (freshGlobals, freshAttempt)))
     = [Failed (join LF [''Backend exited with code 1'', ''--- STDOUT ---'', ''--- STDERR ---''])]
   \<and> deadlinePending (snd (runAttempt [Exit (ExitCode 1)] (freshGlobals, freshAttempt)))
   \<and> timeoutId (snd (runAttempt [Exit (ExitCode 1)] (freshGlobals, freshAttempt)))
   \<and> debouncePending (snd (runAttempt
        [Stderr ''=== Application startup complete ==='', Exit (ExitCode 1)]
        (freshGlobals, freshAttempt))) = 1
   \<and> deadlinePending (snd (runAttempt
        [Stderr ''=== Application startup complete ==='', Exit (ExitCode 1)]
        (freshGlobals, freshAttempt)))"
  by (simp add: attempt_defs message_defs Let_def)

text \<open>
  C4 at a concrete input: the child is ended by a signal that the supervisor did not
  send. Its \<open>exitCode\<close> stays null and \<open>killed\<close> stays false, so the deadline
  handler takes it for running, probes, and resolves the attempt when the probe fails.
\<close>

theorem deadline_after_signal_exit_resolves_ready:
  "hasExited (child (snd (runAttempt [Exit (Signal ''SIGKILL'')] (freshGlobals, freshAttempt))))
   \<and> stillRunning (Some (child (snd (runAttempt [Exit (Signal ''SIGKILL'')] (freshGlobals, freshAttempt)))))
   \<and> settles (snd (runAttempt [Exit (Signal ''SIGKILL''), DeadlineFired]
        (freshGlobals, freshAttempt))) = []
   \<and> probesSent (snd (runAttempt [Exit (Signal ''SIGKILL''), DeadlineFired]
        (freshGlobals, freshAttempt))) = 1
   \<and> settles (snd (runAttempt [Exit (Signal ''SIGKILL''), DeadlineFired, ProbeDone RequestError]
        (freshGlobals, freshAttempt))) = [Ready]
   \<and> promiseState (snd (runAttempt [Exit (Signal ''SIGKILL''), DeadlineFired, ProbeDone RequestError]
        (freshGlobals, freshAttempt))) = Some Ready"
  by (simp add: attempt_defs message_defs promiseState_def Let_def)

section \<open>What one event does to an attempt\<close>

lemma onProbeDone_eq: "onProbeDone r ga = resolveWithCleanup ga"
  by (cases r) simp_all

lemma trackProgress_fields:
  "child (trackProgress output a) = child a"
  "backendReady (trackProgress output a) = backendReady a"
  "healthCheckScheduled (trackProgress output a) = healthCheckScheduled a"
  "timeoutId (trackProgress output a) = timeoutId a"
  "deadlinePending (trackProgress output a) = deadlinePending a"
  "debouncePending (trackProgress output a) = debouncePending a"
  "probesPending (trackProgress output a) = probesPending a"
  "settles (trackProgress output a) = settles a"
  "debouncesArmed (trackProgress output a) = debouncesArmed a"
  "probesSent (trackProgress output a) = probesSent a"
  "debounceProbes (trackProgress output a) = debounceProbes a"
  "stdoutOutput (trackProgress output a) = stdoutOutput a"
  "errorOutput (trackProgress output a) = errorOutput a"
  by (simp_all add: trackProgress_def Let_def)

lemma onStdout_arming:
  "healthCheckScheduled (onStdout output a) =
     (healthCheckScheduled a \<or> (isMarker output \<and> \<not> backendReady a))"
  "debouncesArmed (onStdout output a) =
     (if isMarker output \<and> \<not> backendReady a \<and> \<not> healthCheckScheduled a
      then Suc (debouncesArmed a) else debouncesArmed a)"
  "debouncePending (onStdout output a) =
     (if isMarker output \<and> \<not> backendReady a \<and> \<not> healthCheckScheduled a
      then Suc (debouncePending a) else debouncePending a)"
  by (auto simp: onStdout_def isMarker_def scheduleHealthCheck_def trackProgress_fields Let_def)

lemma onStdout_fields:
  "child (onStdout output a) = child a"
  "backendReady (onStdout output a) = backendReady a"
  "timeoutId (onStdout output a) = timeoutId a"
  "deadlinePending (onStdout output a) = deadlinePending a"
  "probesPending (onStdout output a) = probesPending a"
  "settles (onStdout output a) = settles a"
  "probesSent (onStdout output a) = probesSent a"
  "debounceProbes (onStdout output a) = debounceProbes a"
  "stdoutOutput (onStdout output a) = stdoutOutput a @ [output]"
  "errorOutput (onStdout output a) = errorOutput a"
  by (simp_all add: onStdout_def scheduleHealthCheck_def trackProgress_fields Let_def)

lemma onStderr_arming:
  "healthCheckScheduled (onStderr output a) =
     (healthCheckScheduled a \<or> (isMarker output \<and> \<not> backendReady a))"
  "debouncesArmed (onStderr output a) =
     (if isMarker output \<and> \<not> backendReady a \<and> \<not> healthCheckScheduled a
      then Suc (debouncesArmed a) else debouncesArmed a)"
  "debouncePending (onStderr output a) =
     (if isMarker output \<and> \<not> backendReady a \<and> \<not> healthCheckScheduled a
      then Suc (debouncePending a) else debouncePending a)"
  by (auto simp: onStderr_def isMarker_def scheduleHealthCheck_def trackProgress_fields Let_def)

lemma onStderr_fields:
  "child (onStderr output a) = child a"
  "backendReady (onStderr output a) = backendReady a"
  "timeoutId (onStderr output a) = timeoutId a"
  "deadlinePending (onStderr output a) = deadlinePending a"
  "probesPending (onStderr output a) = probesPending a"
  "settles (onStderr output a) = settles a"
  "probesSent (onStderr output a) = probesSent a"
  "debounceProbes (onStderr output a) = debounceProbes a"
  "stdoutOutput (onStderr output a) = stdoutOutput a"
  "errorOutput (onStderr output a) = errorOutput a @ [output]"
  by (simp_all add: onStderr_def scheduleHealthCheck_def trackProgress_fields Let_def)

lemmas stream_fields = onStdout_arming onStdout_fields onStderr_arming onStderr_fields

lemmas handler_defs = onDebounce_def onExit_def onDeadline_def onError_def onProcError_def
  resolveWithCleanup_def clearTimeoutId_def sendProbe_def onProbeDone_eq


lemma readyInv_step: "readyInv a \<Longrightarrow> readyInv (snd (step bp (g, a) ev))"
  by (cases ev)
    (auto simp: readyInv_def stream_fields handler_defs Let_def
      split: if_splits option.splits proc_error.splits)

lemma wasReady_step:
  "(backendReady a \<longrightarrow> backendWasReady g) \<Longrightarrow>
   (backendReady (snd (step bp (g, a) ev)) \<longrightarrow> backendWasReady (fst (step bp (g, a) ev)))
   \<and> (backendWasReady g \<longrightarrow> backendWasReady (fst (step bp (g, a) ev)))"
  by (cases ev)
    (auto simp: stream_fields handler_defs Let_def split: option.splits proc_error.splits)

lemma count_step:
  "backendRestartCount g \<le> backendRestartCount (fst (step bp (g, a) ev))
   \<and> (backendRestartCount g \<le> 1 \<longrightarrow> backendRestartCount (fst (step bp (g, a) ev)) \<le> 1)"
  by (cases ev)
    (auto simp: handler_defs Let_def split: option.splits proc_error.splits)

section \<open>Properties of the session\<close>

lemma attempts_startBackend:
  "attempts (startBackend pythonOk s) = (if pythonOk then attempts s @ [freshAttempt] else attempts s)"
  by (simp add: startBackend_def Let_def)

lemma glob_startBackend: "glob (startBackend pythonOk s) = glob s"
  by (simp add: startBackend_def Let_def)

lemma glob_killCurrent: "glob (killCurrent s) = glob s"
  by (simp add: killCurrent_def split: option.splits)

lemma in_set_updateD: "x \<in> set (xs[i := y]) \<Longrightarrow> x = y \<or> x \<in> set xs"
  using set_update_subset_insert [of xs i y] by auto

lemma killCurrent_keeps:
  assumes inv: "\<forall>a\<in>set (attempts s). P a"
    and chl: "\<And>a c. P a \<Longrightarrow> P (a\<lparr>child := c\<rparr>)"
  shows "\<forall>a\<in>set (attempts (killCurrent s)). P a"
proof (cases "backendProcess s")
  case None
  with inv show ?thesis by (simp add: killCurrent_def)
next
  case (Some j)
  show ?thesis
  proof (cases "j < length (attempts s)")
    case True
    then have "P (attempts s ! j)" using inv nth_mem by blast
    then have "P ((attempts s ! j)\<lparr>child := kill (child (attempts s ! j))\<rparr>)" by (rule chl)
    with inv Some True show ?thesis
      by (auto simp: killCurrent_def dest!: in_set_updateD)
  next
    case False
    with inv Some show ?thesis by (simp add: killCurrent_def)
  qed
qed

lemma oplog_startBackend:
  "oplog (startBackend True s) = oplog s @ [PortReclaim, Spawn (length (attempts s))]"
  by (simp add: startBackend_def Let_def)

lemma sstep_keeps:
  assumes fresh: "P freshAttempt"
    and stp: "\<And>bp g a ev. P a \<Longrightarrow> P (snd (step bp (g, a) ev))"
    and chl: "\<And>a c. P a \<Longrightarrow> P (a\<lparr>child := c\<rparr>)"
    and inv: "\<forall>a\<in>set (attempts s). P a"
  shows "\<forall>a\<in>set (attempts (sstep s ev)). P a"
proof (cases ev)
  case (AppReady ok)
  with fresh inv show ?thesis by (simp add: attempts_startBackend)
next
  case (AttemptEvent i e)
  show ?thesis
  proof (cases "i < length (attempts s)")
    case True
    then have "P (attempts s ! i)" using inv nth_mem by blast
    then have "P (snd (step (currentChild s) (glob s, attempts s ! i) e))" by (rule stp)
    with inv True AttemptEvent show ?thesis
      by (auto simp: split_beta dest!: in_set_updateD)
  next
    case False
    with inv AttemptEvent show ?thesis by simp
  qed
next
  case (RunQueuedRestart ok)
  with fresh inv show ?thesis by (simp add: attempts_startBackend)
next
  case (RestartRequest ok)
  have "\<forall>a\<in>set (attempts (killCurrent s)). P a"
    using inv chl by (rule killCurrent_keeps)
  with fresh RestartRequest show ?thesis
    by (simp add: restartBackend_def attempts_startBackend Let_def)
next
  case WindowAllClosed
  with killCurrent_keeps [of s P, OF inv chl] show ?thesis by simp
next
  case BeforeQuit
  with killCurrent_keeps [of s P, OF inv chl] show ?thesis by simp
qed

lemma run_keeps:
  assumes fresh: "P freshAttempt"
    and stp: "\<And>bp g a ev. P a \<Longrightarrow> P (snd (step bp (g, a) ev))"
    and chl: "\<And>a c. P a \<Longrightarrow> P (a\<lparr>child := c\<rparr>)"
  shows "(\<forall>a\<in>set (attempts s). P a) \<Longrightarrow> \<forall>a\<in>set (attempts (run evs s)). P a"
proof (induction evs arbitrary: s)
  case Nil
  then show ?case by simp
next
  case (Cons ev evs)
  have "\<forall>a\<in>set (attempts (sstep s ev)). P a"
    using fresh stp chl Cons.prems by (rule sstep_keeps)
  then show ?case using Cons.IH by simp
qed


lemma run_readyInv: "\<forall>a\<in>set (attempts (run evs initSession)). readyInv a"
proof (rule run_keeps)
  show "readyInv freshAttempt" by (simp add: readyInv_def freshAttempt_def)
  show "\<And>bp g a ev. readyInv a \<Longrightarrow> readyInv (snd (step bp (g, a) ev))" by (rule readyInv_step)
  show "\<And>a c. readyInv a \<Longrightarrow> readyInv (a\<lparr>child := c\<rparr>)"
    by (auto simp: readyInv_def split: if_splits)
  show "\<forall>a\<in>set (attempts initSession). readyInv a" by (simp add: initSession_def)
qed

text \<open>
  Across a session \<open>resolve()\<close> is called at most once per attempt, and an attempt
  that resolved has its deadline timer cleared.
\<close>

lemma ready_resolved_at_most_once:
  "i < length (attempts (run evs initSession)) \<Longrightarrow>
   count_list (settles (attempts (run evs initSession) ! i)) Ready \<le> 1"
  using run_readyInv [of evs] nth_mem [of i "attempts (run evs initSession)"]
  by (auto simp: readyInv_def split: if_splits)

lemma ready_clears_deadline:
  "i < length (attempts (run evs initSession)) \<Longrightarrow>
   backendReady (attempts (run evs initSession) ! i) \<Longrightarrow>
   \<not> deadlinePending (attempts (run evs initSession) ! i)
   \<and> \<not> timeoutId (attempts (run evs initSession) ! i)"
  using run_readyInv [of evs] nth_mem [of i "attempts (run evs initSession)"]
  by (auto simp: readyInv_def split: if_splits)

text \<open>The flag of an attempt that resolved implies the flag of the module.\<close>

lemma sstep_wasReady:
  assumes inv: "\<forall>a\<in>set (attempts s). backendReady a \<longrightarrow> backendWasReady (glob s)"
  shows "\<forall>a\<in>set (attempts (sstep s ev)). backendReady a \<longrightarrow> backendWasReady (glob (sstep s ev))"
proof (cases ev)
  case (AppReady ok)
  with inv show ?thesis
    by (simp add: attempts_startBackend glob_startBackend freshAttempt_def)
next
  case (AttemptEvent i e)
  show ?thesis
  proof (cases "i < length (attempts s)")
    case True
    let ?r = "step (currentChild s) (glob s, attempts s ! i) e"
    from True inv have "backendReady (attempts s ! i) \<longrightarrow> backendWasReady (glob s)"
      using nth_mem by blast
    from wasReady_step [OF this, of "currentChild s" e]
    have new: "backendReady (snd ?r) \<longrightarrow> backendWasReady (fst ?r)"
      and mono: "backendWasReady (glob s) \<longrightarrow> backendWasReady (fst ?r)" by simp_all
    with inv True AttemptEvent show ?thesis
      by (auto simp: split_beta dest!: in_set_updateD)
  next
    case False
    with inv AttemptEvent show ?thesis by simp
  qed
next
  case (RunQueuedRestart ok)
  with inv show ?thesis
    by (simp add: attempts_startBackend glob_startBackend freshAttempt_def)
next
  case (RestartRequest ok)
  have "\<forall>a\<in>set (attempts (killCurrent s)). backendReady a \<longrightarrow> backendWasReady (glob s)"
    using inv by (rule killCurrent_keeps) simp
  with RestartRequest show ?thesis
    by (simp add: restartBackend_def attempts_startBackend glob_startBackend glob_killCurrent
        freshAttempt_def Let_def)
next
  case WindowAllClosed
  have "\<forall>a\<in>set (attempts (killCurrent s)). backendReady a \<longrightarrow> backendWasReady (glob s)"
    using inv by (rule killCurrent_keeps) simp
  with WindowAllClosed show ?thesis by (simp add: glob_killCurrent)
next
  case BeforeQuit
  have "\<forall>a\<in>set (attempts (killCurrent s)). backendReady a \<longrightarrow> backendWasReady (glob s)"
    using inv by (rule killCurrent_keeps) simp
  with BeforeQuit show ?thesis by (simp add: glob_killCurrent)
qed

lemma run_wasReady_gen:
  "(\<forall>a\<in>set (attempts s). backendReady a \<longrightarrow> backendWasReady (glob s)) \<Longrightarrow>
   \<forall>a\<in>set (attempts (run evs s)). backendReady a \<longrightarrow> backendWasReady (glob (run evs s))"
proof (induction evs arbitrary: s)
  case Nil
  then show ?case by simp
next
  case (Cons ev evs)
  from sstep_wasReady [OF Cons.prems] Cons.IH show ?case by simp
qed

lemma run_wasReady:
  "i < length (attempts (run evs initSession)) \<Longrightarrow>
   backendReady (attempts (run evs initSession) ! i) \<Longrightarrow>
   backendWasReady (glob (run evs initSession))"
proof -
  have "\<forall>a\<in>set (attempts initSession). backendReady a \<longrightarrow> backendWasReady (glob initSession)"
    by (simp add: initSession_def)
  then have "\<forall>a\<in>set (attempts (run evs initSession)).
      backendReady a \<longrightarrow> backendWasReady (glob (run evs initSession))"
    by (rule run_wasReady_gen)
  then show "i < length (attempts (run evs initSession)) \<Longrightarrow>
   backendReady (attempts (run evs initSession) ! i) \<Longrightarrow>
   backendWasReady (glob (run evs initSession))"
    using nth_mem by blast
qed

text \<open>The restart counter under one event and under a run.\<close>

lemma sstep_count:
  "backendRestartCount (glob s) \<le> backendRestartCount (glob (sstep s ev))
   \<and> (backendRestartCount (glob s) \<le> 1 \<longrightarrow> backendRestartCount (glob (sstep s ev)) \<le> 1)"
proof (cases ev)
  case (AttemptEvent i e)
  from count_step [of "glob s" "currentChild s" "attempts s ! i" e] AttemptEvent
  show ?thesis by (simp add: split_beta)
qed (simp_all add: glob_startBackend glob_killCurrent restartBackend_def Let_def)

lemma run_count:
  "backendRestartCount (glob s) \<le> backendRestartCount (glob (run evs s))
   \<and> (backendRestartCount (glob s) \<le> 1 \<longrightarrow> backendRestartCount (glob (run evs s)) \<le> 1)"
proof (induction evs arbitrary: s)
  case Nil
  show ?case by simp
next
  case (Cons ev evs)
  from sstep_count [of s ev] Cons.IH [of "sstep s ev"] show ?case
    by (auto intro: order_trans)
qed

section \<open>The debounce across a history\<close>



















section \<open>The deadline handler\<close>

lemma deadline_on_running_child_resolves_ready:
  assumes "\<not> backendReady a" and "deadlinePending a" and "stillRunning bp"
  shows "step bp (g, a) DeadlineFired = (g, sendProbe (a\<lparr>deadlinePending := False\<rparr>))
    \<and> probesSent (snd (step bp (g, a) DeadlineFired)) = Suc (probesSent a)
    \<and> settles (snd (step bp (g, a) DeadlineFired)) = settles a
    \<and> settles (snd (step bp' (step bp (g, a) DeadlineFired) (ProbeDone r))) = settles a @ [Ready]"
  using assms by (simp add: handler_defs Let_def)

lemma deadline_on_stopped_child_rejects:
  assumes "\<not> backendReady a" and "deadlinePending a" and "\<not> stillRunning bp"
  shows "settles (snd (step bp (g, a) DeadlineFired)) = settles a @ [Failed (timeoutMessage bp a)]
    \<and> \<not> deadlinePending (snd (step bp (g, a) DeadlineFired))
    \<and> \<not> backendReady (snd (step bp (g, a) DeadlineFired))"
  using assms by (simp add: handler_defs timeoutMessage_def Let_def)

lemma stopped_children:
  "\<not> stillRunning None"
  "\<not> stillRunning (Some (recordExit (ExitCode n) c))"
  "\<not> hasExited c \<Longrightarrow> \<not> stillRunning (Some (kill c))"
  "stillRunning (Some freshChild)"
  by (simp_all add: stillRunning_def kill_def freshChild_def)

section \<open>The exit listener\<close>

lemma onExit_cases:
  "onExit st (g, a) =
     (if unexpectedExit st then
        (if \<not> backendReady a then
           (g, a\<lparr>settles := settles a @
                  [Failed (exitMessage (case codeOf st of None \<Rightarrow> 0 | Some code \<Rightarrow> code) a)]\<rparr>)
         else if backendWasReady g \<and> backendRestartCount g < 1 then
           (g\<lparr>backendRestartCount := backendRestartCount g + 1,
              restartsQueued := Suc (restartsQueued g)\<rparr>, a)
         else (g, a))
      else (g, a))"
  by (cases st) (simp_all add: onExit_def unexpectedExit_def)

lemma exitMessage_child: "exitMessage code (a\<lparr>child := c\<rparr>) = exitMessage code a"
  by (simp add: exitMessage_def)

lemma sstep_exit:
  assumes "i < length (attempts s)" and "\<not> hasExited (child (attempts s ! i))"
  shows "glob (sstep s (AttemptEvent i (Exit st)))
           = fst (onExit st (glob s, (attempts s ! i)\<lparr>child := recordExit st (child (attempts s ! i))\<rparr>))"
    and "attempts (sstep s (AttemptEvent i (Exit st))) ! i
           = snd (onExit st (glob s, (attempts s ! i)\<lparr>child := recordExit st (child (attempts s ! i))\<rparr>))"
  using assms by (simp_all add: split_beta)

lemma sstep_exit_glob_other:
  "glob (sstep s (AttemptEvent i (Exit st))) = glob s
   \<or> (unexpectedExit st \<and> backendRestartCount (glob s) < 1)"
  by (cases "i < length (attempts s)"; cases "hasExited (child (attempts s ! i))")
    (simp_all add: split_beta onExit_cases)

text \<open>
  C2. From its start the session never has more than one restart used; the counter never
  goes down, whatever happens (a restart included); and once it is at 1, an exit of any
  child, with any status, leaves the module's variables as they are: no restart is
  queued and the counter stays at 1.
\<close>

theorem restart_budget_never_exceeded:
  "backendRestartCount (glob (run evs initSession)) \<le> 1
   \<and> backendRestartCount (glob s) \<le> backendRestartCount (glob (run evs s))
   \<and> (backendRestartCount (glob s) = 1 \<longrightarrow>
        backendRestartCount (glob (run evs s)) = 1
        \<and> glob (sstep s (AttemptEvent i (Exit st))) = glob s)"
proof -
  have a: "backendRestartCount (glob (run evs initSession)) \<le> 1"
    using run_count [of initSession evs] by (simp add: initSession_def freshGlobals_def)
  have b: "backendRestartCount (glob s) \<le> backendRestartCount (glob (run evs s))"
    using run_count [of s evs] by simp
  have c: "backendRestartCount (glob s) = 1 \<longrightarrow> backendRestartCount (glob (run evs s)) = 1"
    using run_count [of s evs] by auto
  have d: "backendRestartCount (glob s) = 1 \<longrightarrow> glob (sstep s (AttemptEvent i (Exit st))) = glob s"
    using sstep_exit_glob_other [of s i st] by auto
  from a b c d show ?thesis by blast
qed

text \<open>
  C3, as the code has it. On the exit of the child of a live attempt in a state the
  session can reach, a restart is queued exactly when the exit is unexpected (a code
  that is neither zero nor null), this attempt itself had resolved ready, and no
  restart has been used; the module's \<open>backendWasReady\<close> is then true as well. When
  a restart is queued the counter goes up by one; otherwise the module's variables are
  untouched. A non-zero code before this attempt resolved rejects it with the joined
  output; a zero or null code only records the exit.
\<close>

theorem restart_iff_attempt_ready_and_budget:
  assumes "s = run evs initSession"
    and "i < length (attempts s)"
    and "\<not> hasExited (child (attempts s ! i))"
  shows "(restartsQueued (glob (sstep s (AttemptEvent i (Exit st)))) = Suc (restartsQueued (glob s))
          \<longleftrightarrow> unexpectedExit st \<and> backendReady (attempts s ! i) \<and> backendRestartCount (glob s) < 1)
    \<and> (backendReady (attempts s ! i) \<longrightarrow> backendWasReady (glob s))
    \<and> (unexpectedExit st \<and> backendReady (attempts s ! i) \<and> backendRestartCount (glob s) < 1 \<longrightarrow>
         backendRestartCount (glob (sstep s (AttemptEvent i (Exit st))))
           = Suc (backendRestartCount (glob s)))
    \<and> (\<not> (unexpectedExit st \<and> backendReady (attempts s ! i) \<and> backendRestartCount (glob s) < 1) \<longrightarrow>
         glob (sstep s (AttemptEvent i (Exit st))) = glob s)
    \<and> (code \<noteq> 0 \<and> \<not> backendReady (attempts s ! i) \<longrightarrow>
         settles (attempts (sstep s (AttemptEvent i (Exit (ExitCode code)))) ! i)
           = settles (attempts s ! i) @ [Failed (exitMessage code (attempts s ! i))])
    \<and> (\<not> unexpectedExit st \<longrightarrow>
         attempts (sstep s (AttemptEvent i (Exit st))) ! i
           = (attempts s ! i)\<lparr>child := recordExit st (child (attempts s ! i))\<rparr>)"
proof -
  have was: "backendReady (attempts s ! i) \<longrightarrow> backendWasReady (glob s)"
    using assms(1,2) run_wasReady [of i evs] by simp
  note ex = sstep_exit [OF assms(2,3)]
  have c1: "restartsQueued (glob (sstep s (AttemptEvent i (Exit st)))) = Suc (restartsQueued (glob s))
          \<longleftrightarrow> unexpectedExit st \<and> backendReady (attempts s ! i) \<and> backendRestartCount (glob s) < 1"
    using was assms(2,3) by (simp add: ex onExit_cases)
  have c3: "unexpectedExit st \<and> backendReady (attempts s ! i) \<and> backendRestartCount (glob s) < 1 \<longrightarrow>
         backendRestartCount (glob (sstep s (AttemptEvent i (Exit st))))
           = Suc (backendRestartCount (glob s))"
    using was assms(2,3) by (simp add: ex onExit_cases)
  have c4: "\<not> (unexpectedExit st \<and> backendReady (attempts s ! i) \<and> backendRestartCount (glob s) < 1) \<longrightarrow>
         glob (sstep s (AttemptEvent i (Exit st))) = glob s"
    using assms(2,3) by (simp add: ex onExit_cases)
  have c5: "code \<noteq> 0 \<and> \<not> backendReady (attempts s ! i) \<longrightarrow>
         settles (attempts (sstep s (AttemptEvent i (Exit (ExitCode code)))) ! i)
           = settles (attempts s ! i) @ [Failed (exitMessage code (attempts s ! i))]"
    using assms(2,3) by (simp add: ex onExit_cases unexpectedExit_def exitMessage_child)
  have c6: "\<not> unexpectedExit st \<longrightarrow>
         attempts (sstep s (AttemptEvent i (Exit st))) ! i
           = (attempts s ! i)\<lparr>child := recordExit st (child (attempts s ! i))\<rparr>"
    using assms(2,3) by (simp add: ex onExit_cases)
  from c1 was c3 c4 c5 c6 show ?thesis by blast
qed


section \<open>Concrete sessions\<close>

lemmas session_defs =
  initSession_def startBackend_def killCurrent_def restartBackend_def currentChild_def kill_def

text \<open>
  A session for C2: the first child becomes ready and then exits with code 1, the one
  restart is queued and run, the second child becomes ready, and when it exits with
  code 1 as well the module's variables stay as they are, the counter at 1.
\<close>

theorem restart_budget_never_exceeded_witness:
  "backendRestartCount (glob (run
       [AppReady True, AttemptEvent 0 (Stdout ''Uvicorn running on''),
        AttemptEvent 0 DebounceFired, AttemptEvent 0 (ProbeDone (Response 200)),
        AttemptEvent 0 (Exit (ExitCode 1)), RunQueuedRestart True,
        AttemptEvent 1 (Stderr ''Uvicorn running on''), AttemptEvent 1 DebounceFired,
        AttemptEvent 1 (ProbeDone RequestError)] initSession)) = 1
   \<and> backendReady (attempts (run
       [AppReady True, AttemptEvent 0 (Stdout ''Uvicorn running on''),
        AttemptEvent 0 DebounceFired, AttemptEvent 0 (ProbeDone (Response 200)),
        AttemptEvent 0 (Exit (ExitCode 1)), RunQueuedRestart True,
        AttemptEvent 1 (Stderr ''Uvicorn running on''), AttemptEvent 1 DebounceFired,
        AttemptEvent 1 (ProbeDone RequestError)] initSession) ! 1)
   \<and> glob (sstep (run
       [AppReady True, AttemptEvent 0 (Stdout ''Uvicorn running on''),
        AttemptEvent 0 DebounceFired, AttemptEvent 0 (ProbeDone (Response 200)),
        AttemptEvent 0 (Exit (ExitCode 1)), RunQueuedRestart True,
        AttemptEvent 1 (Stderr ''Uvicorn running on''), AttemptEvent 1 DebounceFired,
        AttemptEvent 1 (ProbeDone RequestError)] initSession) (AttemptEvent 1 (Exit (ExitCode 1))))
     = glob (run
       [AppReady True, AttemptEvent 0 (Stdout ''Uvicorn running on''),
        AttemptEvent 0 DebounceFired, AttemptEvent 0 (ProbeDone (Response 200)),
        AttemptEvent 0 (Exit (ExitCode 1)), RunQueuedRestart True,
        AttemptEvent 1 (Stderr ''Uvicorn running on''), AttemptEvent 1 DebounceFired,
        AttemptEvent 1 (ProbeDone RequestError)] initSession)"
proof -
  let ?s = "run
       [AppReady True, AttemptEvent 0 (Stdout ''Uvicorn running on''),
        AttemptEvent 0 DebounceFired, AttemptEvent 0 (ProbeDone (Response 200)),
        AttemptEvent 0 (Exit (ExitCode 1)), RunQueuedRestart True,
        AttemptEvent 1 (Stderr ''Uvicorn running on''), AttemptEvent 1 DebounceFired,
        AttemptEvent 1 (ProbeDone RequestError)] initSession"
  have used: "backendRestartCount (glob ?s) = 1"
    by (simp add: session_defs attempt_defs message_defs Let_def)
  have ready: "backendReady (attempts ?s ! 1)"
    by (simp add: session_defs attempt_defs message_defs Let_def)
  from restart_budget_never_exceeded [of "[]" ?s 1 "ExitCode 1"] used
  have "glob (sstep ?s (AttemptEvent 1 (Exit (ExitCode 1)))) = glob ?s"
    by blast
  with used ready show ?thesis by blast
qed

text \<open>
  A session for C3: the child becomes ready and exits with code 1; the restart is
  queued and the counter goes from 0 to 1.
\<close>

theorem restart_iff_attempt_ready_and_budget_witness:
  "0 < length (attempts (run
       [AppReady True, AttemptEvent 0 (Stdout ''Uvicorn running on''),
        AttemptEvent 0 DebounceFired, AttemptEvent 0 (ProbeDone (Response 200))] initSession))
   \<and> \<not> hasExited (child (attempts (run
       [AppReady True, AttemptEvent 0 (Stdout ''Uvicorn running on''),
        AttemptEvent 0 DebounceFired, AttemptEvent 0 (ProbeDone (Response 200))] initSession) ! 0))
   \<and> restartsQueued (glob (sstep (run
       [AppReady True, AttemptEvent 0 (Stdout ''Uvicorn running on''),
        AttemptEvent 0 DebounceFired, AttemptEvent 0 (ProbeDone (Response 200))] initSession)
       (AttemptEvent 0 (Exit (ExitCode 1)))))
     = Suc (restartsQueued (glob (run
       [AppReady True, AttemptEvent 0 (Stdout ''Uvicorn running on''),
        AttemptEvent 0 DebounceFired, AttemptEvent 0 (ProbeDone (Response 200))] initSession)))
   \<and> backendRestartCount (glob (sstep (run
       [AppReady True, AttemptEvent 0 (Stdout ''Uvicorn running on''),
        AttemptEvent 0 DebounceFired, AttemptEvent 0 (ProbeDone (Response 200))] initSession)
       (AttemptEvent 0 (Exit (ExitCode 1)))))
     = Suc (backendRestartCount (glob (run
       [AppReady True, AttemptEvent 0 (Stdout ''Uvicorn running on''),
        AttemptEvent 0 DebounceFired, AttemptEvent 0 (ProbeDone (Response 200))] initSession)))"
proof -
  let ?s = "run
       [AppReady True, AttemptEvent 0 (Stdout ''Uvicorn running on''),
        AttemptEvent 0 DebounceFired, AttemptEvent 0 (ProbeDone (Response 200))] initSession"
  have len: "0 < length (attempts ?s)"
    by (simp add: session_defs attempt_defs message_defs Let_def)
  have live: "\<not> hasExited (child (attempts ?s ! 0))"
    by (simp add: session_defs attempt_defs message_defs Let_def)
  have ready: "backendReady (attempts ?s ! 0)"
    by (simp add: session_defs attempt_defs message_defs Let_def)
  have budget: "backendRestartCount (glob ?s) < 1"
    by (simp add: session_defs attempt_defs message_defs Let_def)
  have unexpected: "unexpectedExit (ExitCode 1)"
    by (simp add: unexpectedExit_def)
  from restart_iff_attempt_ready_and_budget [OF refl len live, of "ExitCode 1"]
    ready budget unexpected len live
  show ?thesis by blast
qed

text \<open>
  C3 as it is worded fails after a forced restart: the first child was ready, so the
  module's \<open>backendWasReady\<close> is true, no restart has been used, and the second
  child, spawned by the restart request, exits with code 1 before it is ready. No
  restart is queued.
\<close>

theorem crash_after_forced_restart_not_restarted:
  "backendWasReady (glob (run
       [AppReady True, AttemptEvent 0 (Stdout ''Uvicorn running on''),
        AttemptEvent 0 DebounceFired, AttemptEvent 0 (ProbeDone (Response 200)),
        RestartRequest True] initSession))
   \<and> backendRestartCount (glob (run
       [AppReady True, AttemptEvent 0 (Stdout ''Uvicorn running on''),
        AttemptEvent 0 DebounceFired, AttemptEvent 0 (ProbeDone (Response 200)),
        RestartRequest True] initSession)) < 1
   \<and> \<not> hasExited (child (attempts (run
       [AppReady True, AttemptEvent 0 (Stdout ''Uvicorn running on''),
        AttemptEvent 0 DebounceFired, AttemptEvent 0 (ProbeDone (Response 200)),
        RestartRequest True] initSession) ! 1))
   \<and> unexpectedExit (ExitCode 1)
   \<and> glob (run
       [AppReady True, AttemptEvent 0 (Stdout ''Uvicorn running on''),
        AttemptEvent 0 DebounceFired, AttemptEvent 0 (ProbeDone (Response 200)),
        RestartRequest True, AttemptEvent 1 (Exit (ExitCode 1))] initSession)
     = \<lparr>backendWasReady = True, backendRestartCount = 0, restartsQueued = 0\<rparr>
   \<and> settles (attempts (run
       [AppReady True, AttemptEvent 0 (Stdout ''Uvicorn running on''),
        AttemptEvent 0 DebounceFired, AttemptEvent 0 (ProbeDone (Response 200)),
        RestartRequest True, AttemptEvent 1 (Exit (ExitCode 1))] initSession) ! 1)
     = [Failed (join LF [''Backend exited with code 1'', ''--- STDOUT ---'', ''--- STDERR ---''])]"
  by (simp add: session_defs attempt_defs message_defs unexpectedExit_def Let_def)



end
